theory Spec2Isabelle
  imports Main "HOL-Library.Char_ord" "HOL-Library.List_Lexorder"
begin

section \<open>The note-type manager (qt/aqt/models.py)\<close>

text \<open>
  The module holds two dialogs: \<open>Models\<close>, the note-type manager, and \<open>AddModel\<close>,
  the picker that \<open>Models.onAdd\<close> opens. Both are event handlers over a list widget and
  the collection owned by the main window. The handlers are embedded as functions on the
  dialog's state; what the user answers to a prompt is an argument of the handler; every
  call that talks to the user or changes the collection is appended to a log kept beside
  the collection, so that the order of the calls can be stated. A task handed to
  \<open>taskman.with_progress\<close> is run to its end and its \<open>on_done\<close> is run on the result.
  The button box, the help pages, the saved geometry and the handlers \<open>onAdvanced\<close>,
  \<open>onFields\<close> and \<open>onCards\<close> are left out.
\<close>

subsection \<open>Values\<close>

text \<open>Exceptions a handler can end with.\<close>

datatype error = IndexError | TypeError | AbortSchemaModification

text \<open>
  \<open>NoteTypeNameIDUseCount\<close>: the entries of \<open>models.all_use_counts()\<close>, read by
  the handlers as \<open>m.id\<close>, \<open>m.name\<close> and \<open>m.use_count\<close>.
\<close>

record NoteTypeNameIDUseCount =
  ntid :: int
  name :: string
  use_count :: int

text \<open>
  \<open>NoteType\<close> is a dict; the handlers embedded here read and write its \<open>"name"\<close> key
  only, so it is a record of that key and of the id the collection files it under.
\<close>

record NoteType =
  nt_id :: int
  nt_name :: string

text \<open>The translated strings the handlers pass to a prompt, by their key.\<close>

datatype tr_msg =
    notetypes_please_add_another_note_type_first
  | notetypes_delete_this_note_type_and_all
  | notetypes_delete_this_unused_note_type
  | actions_new_name
  | actions_name

text \<open>
  The calls of a handler that reach the user (\<open>showInfo\<close>, \<open>askUser\<close> with its
  message and what it returned, \<open>getText\<close> with its prompt and default) or change the collection (\<open>col.modSchema(check=...)\<close>,
  \<open>models.save\<close>, \<open>models.rem\<close>, \<open>models.copy\<close>, \<open>models.setCurrent\<close>).
\<close>

datatype call =
    is_ShowInfo: ShowInfo tr_msg
  | is_AskUser: AskUser tr_msg bool
  | is_GetText: GetText tr_msg string
  | is_ModSchema: ModSchema bool
  | is_Save: Save NoteType
  | is_Rem: Rem "NoteType option"
  | is_Copy: Copy NoteType
  | is_SetCurrent: SetCurrent NoteType

text \<open>
  The collection is a collaborator outside this module: its state is a type parameter
  \<open>'c\<close> and its methods are the fields of a record. \<open>get\<close> is \<open>models.get\<close>, which
  answers \<open>None\<close> for an unknown id; \<open>rem\<close> receives whatever \<open>get\<close> answered;
  \<open>save\<close> and \<open>rem\<close>, the calls made inside a task, either return the collection they
  leave or raise, with the collection as the failed call left it;
  \<open>modSchema\<close> with \<open>check=True\<close> may raise; a stock entry is a function that builds
  a note type from the collection. \<open>browsing_note_count\<close> is the translation
  \<open>tr.browsing_note_count(count=...)\<close>; \<open>notetypes_add\<close> and \<open>notetypes_clone\<close>
  are the translations \<open>tr.notetypes_add(val=...)\<close> and \<open>tr.notetypes_clone(val=...)\<close>.
\<close>

record 'c externals =
  all_use_counts :: "'c \<Rightarrow> NoteTypeNameIDUseCount list"
  get :: "'c \<Rightarrow> int \<Rightarrow> NoteType option"
  save :: "NoteType \<Rightarrow> 'c \<Rightarrow> error \<times> 'c + 'c"
  rem :: "NoteType option \<Rightarrow> 'c \<Rightarrow> error \<times> 'c + 'c"
  copy :: "NoteType \<Rightarrow> 'c \<Rightarrow> NoteType \<times> 'c"
  setCurrent :: "NoteType \<Rightarrow> 'c \<Rightarrow> 'c"
  all_notetypes :: "'c \<Rightarrow> NoteType list"
  modSchema :: "bool \<Rightarrow> 'c \<Rightarrow> error + 'c"
  get_stock_notetypes :: "'c \<Rightarrow> (string \<times> ('c \<Rightarrow> NoteType \<times> 'c)) list"
  browsing_note_count :: "int \<Rightarrow> string"
  notetypes_add :: "string \<Rightarrow> string"
  notetypes_clone :: "string \<Rightarrow> string"

text \<open>The main window \<open>mw\<close>: the collection and the log of calls.\<close>

record 'c AnkiQt =
  col :: 'c
  calls :: "call list"

definition log_call :: "call \<Rightarrow> 'c AnkiQt \<Rightarrow> 'c AnkiQt" where
  "log_call c w = w\<lparr>calls := calls w @ [c]\<rparr>"

text \<open>
  \<open>xs[i]\<close> of Python: a negative index counts from the end, an index outside the list
  raises \<open>IndexError\<close>.
\<close>

definition getitem :: "'a list \<Rightarrow> int \<Rightarrow> error + 'a" where
  "getitem xs i =
     (if 0 \<le> i \<and> i < int (length xs) then Inr (xs ! nat i)
      else if i < 0 \<and> 0 \<le> int (length xs) + i then Inr (xs ! nat (int (length xs) + i))
      else Inl IndexError)"

text \<open>\<open>s.replace('"', "")\<close>: every double quote (character 0x22) is dropped.\<close>

definition strip_quotes :: "string \<Rightarrow> string" where
  "strip_quotes s = filter (\<lambda>c. c \<noteq> CHR 0x22) s"

subsection \<open>The list widget\<close>

text \<open>
  \<open>QListWidget\<close> belongs to the toolkit. The handlers use four of its methods:
  \<open>currentRow()\<close> is the row of the current item, \<open>-1\<close> when there is none;
  \<open>clear()\<close> removes every item, which leaves no current item; \<open>addItem\<close> appends an
  item and keeps the current one; \<open>setCurrentRow(row)\<close> makes the item at \<open>row\<close>
  current, and a row where the list has no item leaves the widget without a current item.
\<close>

record QListWidget =
  items :: "string list"
  current :: int

definition currentRow :: "QListWidget \<Rightarrow> int" where
  "currentRow w = current w"

definition clear :: "QListWidget \<Rightarrow> QListWidget" where
  "clear w = \<lparr>items = [], current = - 1\<rparr>"

definition addItem :: "string \<Rightarrow> QListWidget \<Rightarrow> QListWidget" where
  "addItem item w = w\<lparr>items := items w @ [item]\<rparr>"

definition setCurrentRow :: "int \<Rightarrow> QListWidget \<Rightarrow> QListWidget" where
  "setCurrentRow row w =
     w\<lparr>current := (if 0 \<le> row \<and> row < int (length (items w)) then row else - 1)\<rparr>"

subsection \<open>Models\<close>

record 'c Models =
  mw :: "'c AnkiQt"
  selected_notetype_id :: "int option"
  models :: "NoteTypeNameIDUseCount list"
  modelsList :: QListWidget

text \<open>The label of a row: \<open>f"{m.name} [{mUse}]"\<close>.\<close>

definition item_text :: "'c externals \<Rightarrow> NoteTypeNameIDUseCount \<Rightarrow> string" where
  "item_text api m = name m @ '' ['' @ browsing_note_count api (use_count m) @ '']''"

text \<open>The loop of \<open>updateModelsList\<close> that adds one item for each entry.\<close>

fun add_items :: "'c externals \<Rightarrow> NoteTypeNameIDUseCount list \<Rightarrow> QListWidget \<Rightarrow> QListWidget" where
  "add_items api [] w = w"
| "add_items api (m # ms) w = add_items api ms (addItem (item_text api m) w)"

definition updateModelsList ::
  "'c externals \<Rightarrow> NoteTypeNameIDUseCount list \<Rightarrow> 'c Models \<Rightarrow> 'c Models" where
  "updateModelsList api notetypes s =
     (let row0 = currentRow (modelsList s);
          row = (if row0 = - 1 then 0 else row0);
          w1 = clear (modelsList s);
          w2 = add_items api notetypes w1
      in s\<lparr>models := notetypes, modelsList := setCurrentRow row w2\<rparr>)"

text \<open>
  \<open>current_notetype\<close>: \<open>self.mm.get(self.models[row].id)\<close> for the widget's current
  row.
\<close>

definition current_notetype :: "'c externals \<Rightarrow> 'c Models \<Rightarrow> error + NoteType option" where
  "current_notetype api s =
     (case getitem (models s) (currentRow (modelsList s)) of
        Inl e \<Rightarrow> Inl e
      | Inr m \<Rightarrow> Inr (get api (col (mw s)) (ntid m)))"

text \<open>
  The loop of \<open>maybe_select_provided_notetype\<close>: the first entry whose id is the one
  looked for becomes the current row, and the loop stops there.
\<close>

fun select_first ::
  "int \<Rightarrow> nat \<Rightarrow> NoteTypeNameIDUseCount list \<Rightarrow> QListWidget \<Rightarrow> QListWidget" where
  "select_first sel i [] w = w"
| "select_first sel i (m # ms) w =
     (if ntid m = sel then setCurrentRow (int i) w else select_first sel (Suc i) ms w)"

text \<open>
  \<open>not self.selected_notetype_id\<close> holds for \<open>None\<close> and for the id \<open>0\<close>.
\<close>

definition maybe_select_provided_notetype :: "'c Models \<Rightarrow> 'c Models" where
  "maybe_select_provided_notetype s =
     (case selected_notetype_id s of
        None \<Rightarrow> s\<lparr>modelsList := setCurrentRow 0 (modelsList s)\<rparr>
      | Some sel \<Rightarrow>
          if sel = 0 then s\<lparr>modelsList := setCurrentRow 0 (modelsList s)\<rparr>
          else s\<lparr>modelsList := select_first sel 0 (models s) (modelsList s)\<rparr>)"

text \<open>
  \<open>__init__\<close> leaves an empty cached list and an empty widget; \<open>setupModels\<close> then
  runs \<open>all_use_counts\<close> as a task whose \<open>on_done\<close> refreshes the list and selects
  the provided note type.
\<close>

definition Models_init :: "'c AnkiQt \<Rightarrow> int option \<Rightarrow> 'c Models" where
  "Models_init w sel =
     \<lparr>mw = w, selected_notetype_id = sel, models = [],
      modelsList = \<lparr>items = [], current = - 1\<rparr>\<rparr>"

definition setupModels :: "'c externals \<Rightarrow> 'c Models \<Rightarrow> 'c Models" where
  "setupModels api s =
     maybe_select_provided_notetype
       (updateModelsList api (all_use_counts api (col (mw s))) s)"

text \<open>
  The dialog after the initial list load: \<open>__init__\<close> has run and the first statement
  of that \<open>on_done\<close> has refreshed the list; \<open>maybe_select_provided_notetype\<close> comes
  next.
\<close>

definition initial_load :: "'c externals \<Rightarrow> 'c AnkiQt \<Rightarrow> int option \<Rightarrow> 'c Models" where
  "initial_load api w sel =
     updateModelsList api (all_use_counts api (col w)) (Models_init w sel)"

text \<open>
  \<open>saveAndRefresh\<close>: the task saves the note type and reads the use counts again;
  \<open>on_done\<close> takes the task's result (\<open>fut.result()\<close>) and refreshes the list from
  it. When \<open>models.save\<close> raises, \<open>fut.result()\<close> raises the same exception and the
  list is not refreshed.
\<close>

definition saveAndRefresh ::
  "'c externals \<Rightarrow> NoteType \<Rightarrow> 'c Models \<Rightarrow> error \<times> 'c Models + 'c Models" where
  "saveAndRefresh api nt s =
     (let w1 = log_call (Save nt) (mw s)
      in case save api nt (col w1) of
           Inl (e, c) \<Rightarrow> Inl (e, s\<lparr>mw := w1\<lparr>col := c\<rparr>\<rparr>)
         | Inr c \<Rightarrow>
             Inr (updateModelsList api (all_use_counts api c) (s\<lparr>mw := w1\<lparr>col := c\<rparr>\<rparr>)))"

text \<open>
  \<open>onRename\<close>; \<open>txt\<close> is what \<open>getText\<close> returns: the text and whether the user
  accepted. \<open>nt["name"]\<close> raises \<open>TypeError\<close> when \<open>get\<close> answered \<open>None\<close>.
\<close>

definition onRename ::
  "'c externals \<Rightarrow> string \<times> bool \<Rightarrow> 'c Models \<Rightarrow> error \<times> 'c Models + 'c Models" where
  "onRename api txt s =
     (case current_notetype api s of
        Inl e \<Rightarrow> Inl (e, s)
      | Inr None \<Rightarrow> Inl (TypeError, s)
      | Inr (Some nt) \<Rightarrow>
          let s1 = s\<lparr>mw := log_call (GetText actions_new_name (nt_name nt)) (mw s)\<rparr>;
              name' = strip_quotes (fst txt)
          in if snd txt \<and> name' \<noteq> []
             then saveAndRefresh api (nt\<lparr>nt_name := name'\<rparr>) s1
             else Inr s1)"

text \<open>
  \<open>onDelete\<close>; \<open>answer\<close> is what \<open>askUser\<close> returns. The task removes the note type
  and reads the use counts again; \<open>on_done\<close> refreshes the list from the task's result,
  and when \<open>models.rem\<close> raises, \<open>fut.result()\<close> raises too and the list stays as it
  was.
\<close>

definition onDelete ::
  "'c externals \<Rightarrow> bool \<Rightarrow> 'c Models \<Rightarrow> error \<times> 'c Models + 'c Models" where
  "onDelete api answer s =
     (if length (models s) < 2
      then Inr (s\<lparr>mw := log_call (ShowInfo notetypes_please_add_another_note_type_first) (mw s)\<rparr>)
      else
        case getitem (models s) (currentRow (modelsList s)) of
          Inl e \<Rightarrow> Inl (e, s)
        | Inr m \<Rightarrow>
            let msg = (if use_count m \<noteq> 0 then notetypes_delete_this_note_type_and_all
                       else notetypes_delete_this_unused_note_type);
                s1 = s\<lparr>mw := log_call (AskUser msg answer) (mw s)\<rparr>
            in if \<not> answer then Inr s1
               else
                 let s2 = s1\<lparr>mw := log_call (ModSchema True) (mw s1)\<rparr>
                 in case modSchema api True (col (mw s2)) of
                      Inl e \<Rightarrow> Inl (e, s2)
                    | Inr c \<Rightarrow>
                        let s3 = s2\<lparr>mw := (mw s2)\<lparr>col := c\<rparr>\<rparr>
                        in case current_notetype api s3 of
                             Inl e \<Rightarrow> Inl (e, s3)
                           | Inr nt \<Rightarrow>
                               let w4 = log_call (Rem nt) (mw s3)
                               in case rem api nt (col w4) of
                                    Inl (e, c') \<Rightarrow> Inl (e, s3\<lparr>mw := w4\<lparr>col := c'\<rparr>\<rparr>)
                                  | Inr c' \<Rightarrow>
                                      Inr (updateModelsList api (all_use_counts api c')
                                             (s3\<lparr>mw := w4\<lparr>col := c'\<rparr>\<rparr>)))"

text \<open>The state a handler ends in, whether it returned or raised.\<close>

definition final :: "error \<times> 's + 's \<Rightarrow> 's" where
  "final r = (case r of Inl (e, s) \<Rightarrow> s | Inr s \<Rightarrow> s)"

text \<open>The calls a handler made: what it appended to the log.\<close>

definition new_calls :: "'c Models \<Rightarrow> 'c Models \<Rightarrow> call list" where
  "new_calls s s' = drop (length (calls (mw s))) (calls (mw s'))"

subsection \<open>AddModel\<close>

text \<open>
  An entry of the picker's \<open>self.models\<close> is a pair of a flag and a payload:
  \<open>(True, func)\<close> for a stock note type, \<open>func\<close> building it from the collection,
  and \<open>(False, m)\<close> for an existing note type \<open>m\<close> to copy.
\<close>

datatype 'c entry =
    is_Std: Std "'c \<Rightarrow> NoteType \<times> 'c"
  | Existing NoteType

record 'c AddModel =
  am_mw :: "'c AnkiQt"
  am_model :: "NoteType option"
  am_models :: "'c entry list"
  dialog_models :: QListWidget

text \<open>The two loops of \<open>__init__\<close>: the standard models, then the copies.\<close>

fun add_std ::
  "'c externals \<Rightarrow> (string \<times> ('c \<Rightarrow> NoteType \<times> 'c)) list \<Rightarrow> 'c AddModel \<Rightarrow> 'c AddModel" where
  "add_std api [] d = d"
| "add_std api ((nm, func) # rest) d =
     add_std api rest
       (d\<lparr>dialog_models := addItem (notetypes_add api nm) (dialog_models d),
          am_models := am_models d @ [Std func]\<rparr>)"

fun add_copies :: "'c externals \<Rightarrow> NoteType list \<Rightarrow> 'c AddModel \<Rightarrow> 'c AddModel" where
  "add_copies api [] d = d"
| "add_copies api (m # rest) d =
     add_copies api rest
       (d\<lparr>dialog_models := addItem (notetypes_clone api (nt_name m)) (dialog_models d),
          am_models := am_models d @ [Existing m]\<rparr>)"

text \<open>
  \<open>__init__\<close>; \<open>sorted(..., key=itemgetter("name"))\<close> is a stable sort on the name.
\<close>

definition AddModel_init :: "'c externals \<Rightarrow> 'c AnkiQt \<Rightarrow> 'c AddModel" where
  "AddModel_init api w =
     (let d0 = \<lparr>am_mw = w, am_model = None, am_models = [],
                dialog_models = \<lparr>items = [], current = - 1\<rparr>\<rparr>;
          d1 = add_std api (get_stock_notetypes api (col w)) d0;
          d2 = add_copies api (sort_key nt_name (all_notetypes api (col w))) d1
      in d2\<lparr>dialog_models := setCurrentRow 0 (dialog_models d2)\<rparr>)"

definition accept :: "'c externals \<Rightarrow> 'c AddModel \<Rightarrow> error \<times> 'c AddModel + 'c AddModel" where
  "accept api d =
     (case getitem (am_models d) (currentRow (dialog_models d)) of
        Inl e \<Rightarrow> Inl (e, d)
      | Inr (Std func) \<Rightarrow>
          let r = func (col (am_mw d))
          in Inr (d\<lparr>am_model := Some (fst r), am_mw := (am_mw d)\<lparr>col := snd r\<rparr>\<rparr>)
      | Inr (Existing m) \<Rightarrow>
          let r = copy api m (col (am_mw d));
              w1 = log_call (Copy m) ((am_mw d)\<lparr>col := snd r\<rparr>);
              w2 = log_call (SetCurrent (fst r)) (w1\<lparr>col := setCurrent api (fst r) (col w1)\<rparr>)
          in Inr (d\<lparr>am_model := Some (fst r), am_mw := w2\<rparr>))"

text \<open>
  What the user does while the picker runs (\<open>exec_\<close>): close it, or make a row
  current and accept.
\<close>

datatype pick = Cancel | Choose int

definition exec_AddModel ::
  "'c externals \<Rightarrow> pick \<Rightarrow> 'c AddModel \<Rightarrow> error \<times> 'c AddModel + 'c AddModel" where
  "exec_AddModel api p d =
     (case p of
        Cancel \<Rightarrow> Inr d
      | Choose row \<Rightarrow> accept api (d\<lparr>dialog_models := setCurrentRow row (dialog_models d)\<rparr>))"

text \<open>\<open>AddModel(self.mw, self).get()\<close>: the picker's \<open>model\<close> after it ran.\<close>

definition AddModel_get ::
  "'c externals \<Rightarrow> pick \<Rightarrow> 'c AnkiQt \<Rightarrow> error \<times> 'c AddModel + 'c AddModel" where
  "AddModel_get api p w = exec_AddModel api p (AddModel_init api w)"

text \<open>
  \<open>onAdd\<close>; \<open>p\<close> is what the user does in the picker, \<open>txt\<close> what \<open>getText\<close>
  returns, of which only the text is read.
\<close>

definition onAdd ::
  "'c externals \<Rightarrow> pick \<Rightarrow> string \<times> bool \<Rightarrow> 'c Models \<Rightarrow> error \<times> 'c Models + 'c Models" where
  "onAdd api p txt s =
     (case AddModel_get api p (mw s) of
        Inl (e, d) \<Rightarrow> Inl (e, s\<lparr>mw := am_mw d\<rparr>)
      | Inr d \<Rightarrow>
          let s1 = s\<lparr>mw := am_mw d\<rparr>
          in case am_model d of
               None \<Rightarrow> Inr s1
             | Some m \<Rightarrow>
                 let s2 = s1\<lparr>mw := log_call (GetText actions_name (nt_name m)) (mw s1)\<rparr>;
                     txt' = strip_quotes (fst txt);
                     m' = (if txt' \<noteq> [] then (m\<lparr>nt_name := txt'\<rparr>) else m)
                 in saveAndRefresh api m' s2)"

subsection \<open>A small collection\<close>

text \<open>
  A concrete collection to run the handlers on: the collection is the list of its
  entries, \<open>get\<close> looks an id up, \<open>save\<close> renames the entry of that id or adds one,
  \<open>rem\<close> drops it and raises \<open>TypeError\<close> when it is handed \<open>None\<close>, \<open>copy\<close>
  adds a renamed copy under a new id, and the schema check passes.
\<close>

definition as_notetype :: "NoteTypeNameIDUseCount \<Rightarrow> NoteType" where
  "as_notetype e = \<lparr>nt_id = ntid e, nt_name = name e\<rparr>"

definition list_save ::
  "NoteType \<Rightarrow> NoteTypeNameIDUseCount list
     \<Rightarrow> error \<times> NoteTypeNameIDUseCount list + NoteTypeNameIDUseCount list" where
  "list_save nt c =
     (if nt_id nt \<in> set (map ntid c)
      then Inr (map (\<lambda>e. if ntid e = nt_id nt then e\<lparr>name := nt_name nt\<rparr> else e) c)
      else Inr (c @ [\<lparr>ntid = nt_id nt, name = nt_name nt, use_count = 0\<rparr>]))"

definition list_rem ::
  "NoteType option \<Rightarrow> NoteTypeNameIDUseCount list
     \<Rightarrow> error \<times> NoteTypeNameIDUseCount list + NoteTypeNameIDUseCount list" where
  "list_rem nt c =
     (case nt of
        None \<Rightarrow> Inl (TypeError, c)
      | Some n \<Rightarrow> Inr (filter (\<lambda>e. ntid e \<noteq> nt_id n) c))"

definition list_copy ::
  "NoteType \<Rightarrow> NoteTypeNameIDUseCount list \<Rightarrow> NoteType \<times> NoteTypeNameIDUseCount list" where
  "list_copy nt c =
     (let m = \<lparr>nt_id = 1 + fold max (map ntid c) 0, nt_name = nt_name nt @ '' copy''\<rparr>
      in (m, c @ [\<lparr>ntid = nt_id m, name = nt_name m, use_count = 0\<rparr>]))"

definition list_col :: "NoteTypeNameIDUseCount list externals" where
  "list_col =
     \<lparr>all_use_counts = (\<lambda>c. c),
      get = (\<lambda>c i. map_option as_notetype (find (\<lambda>e. ntid e = i) c)),
      save = list_save,
      rem = list_rem,
      copy = list_copy,
      setCurrent = (\<lambda>nt c. c),
      all_notetypes = map as_notetype,
      modSchema = (\<lambda>check c. Inr c),
      get_stock_notetypes = (\<lambda>c. [(''Basic'', \<lambda>c'. (\<lparr>nt_id = 0, nt_name = ''Basic''\<rparr>, c'))]),
      browsing_note_count = (\<lambda>n. ''notes''),
      notetypes_add = (\<lambda>v. ''Add: '' @ v),
      notetypes_clone = (\<lambda>v. ''Clone: '' @ v)\<rparr>"

text \<open>
  The manager over that collection with the list loaded, \<open>row\<close> current and no call
  logged yet; two collections to run it on.
\<close>

definition dialog_on ::
  "NoteTypeNameIDUseCount list \<Rightarrow> int \<Rightarrow> NoteTypeNameIDUseCount list Models" where
  "dialog_on c row =
     \<lparr>mw = \<lparr>col = c, calls = []\<rparr>, selected_notetype_id = None,
      models = c,
      modelsList = \<lparr>items = map (item_text list_col) c, current = row\<rparr>\<rparr>"

definition two_types :: "NoteTypeNameIDUseCount list" where
  "two_types =
     [\<lparr>ntid = 1, name = ''Basic'', use_count = 3\<rparr>,
      \<lparr>ntid = 2, name = ''Cloze'', use_count = 0\<rparr>]"

definition one_type :: "NoteTypeNameIDUseCount list" where
  "one_type = [\<lparr>ntid = 1, name = ''Basic'', use_count = 3\<rparr>]"

text \<open>A collection with a note type of id 0 in its second row.\<close>

definition with_unsaved :: "NoteTypeNameIDUseCount list" where
  "with_unsaved =
     [\<lparr>ntid = 1, name = ''Basic'', use_count = 3\<rparr>,
      \<lparr>ntid = 0, name = ''New'', use_count = 0\<rparr>]"

text \<open>The picker over the two note types with \<open>row\<close> made current.\<close>

definition picker :: "int \<Rightarrow> NoteTypeNameIDUseCount list AddModel" where
  "picker row =
     (AddModel_init list_col \<lparr>col = two_types, calls = []\<rparr>)
       \<lparr>dialog_models := setCurrentRow row
          (dialog_models (AddModel_init list_col \<lparr>col = two_types, calls = []\<rparr>))\<rparr>"

subsection \<open>The list mirrors the collection\<close>

lemma items_add_items:
  "items (add_items api ms w) = items w @ map (item_text api) ms"
  by (induction ms arbitrary: w) (simp_all add: addItem_def)

lemma current_add_items: "current (add_items api ms w) = current w"
  by (induction ms arbitrary: w) (simp_all add: addItem_def)

lemma models_updateModelsList [simp]:
  "models (updateModelsList api notetypes s) = notetypes"
  by (simp add: updateModelsList_def Let_def)

lemma mw_updateModelsList [simp]:
  "mw (updateModelsList api notetypes s) = mw s"
  by (simp add: updateModelsList_def Let_def)

lemma selected_updateModelsList [simp]:
  "selected_notetype_id (updateModelsList api notetypes s) = selected_notetype_id s"
  by (simp add: updateModelsList_def Let_def)

lemma items_updateModelsList [simp]:
  "items (modelsList (updateModelsList api notetypes s)) = map (item_text api) notetypes"
  by (simp add: updateModelsList_def Let_def setCurrentRow_def clear_def items_add_items)

lemma currentRow_updateModelsList:
  "currentRow (modelsList (updateModelsList api notetypes s)) =
     (let row = (if currentRow (modelsList s) = - 1 then 0 else currentRow (modelsList s))
      in if 0 \<le> row \<and> row < int (length notetypes) then row else - 1)"
  by (simp add: updateModelsList_def Let_def setCurrentRow_def clear_def items_add_items
      currentRow_def)

lemma models_maybe_select [simp]:
  "models (maybe_select_provided_notetype s) = models s"
  by (simp add: maybe_select_provided_notetype_def split: option.splits)

lemma mw_maybe_select [simp]:
  "mw (maybe_select_provided_notetype s) = mw s"
  by (simp add: maybe_select_provided_notetype_def split: option.splits)

lemma items_select_first [simp]:
  "items (select_first sel i ms w) = items w"
  by (induction ms arbitrary: i) (simp_all add: setCurrentRow_def)

lemma items_maybe_select [simp]:
  "items (modelsList (maybe_select_provided_notetype s)) = items (modelsList s)"
  by (simp add: maybe_select_provided_notetype_def setCurrentRow_def split: option.splits)

text \<open>
  C6. After \<open>updateModelsList\<close> the cached list is the list it was given and the widget
  shows one row for each entry, in the same order; in \<open>setupModels\<close>, and in
  \<open>saveAndRefresh\<close> and \<open>onDelete\<close> whenever their task returned and the list was
  refreshed, that list is what \<open>all_use_counts\<close> returns on the collection as the task
  left it.
\<close>

theorem updateModelsList_mirrors_collection:
  "models (updateModelsList api notetypes s) = notetypes
   \<and> items (modelsList (updateModelsList api notetypes s)) = map (item_text api) notetypes
   \<and> length (items (modelsList (updateModelsList api notetypes s))) = length notetypes
   \<and> models (setupModels api s) = all_use_counts api (col (mw (setupModels api s)))
   \<and> items (modelsList (setupModels api s))
       = map (item_text api) (all_use_counts api (col (mw (setupModels api s))))
   \<and> (saveAndRefresh api nt s = Inr s1 \<longrightarrow>
        models s1 = all_use_counts api (col (mw s1))
        \<and> items (modelsList s1) = map (item_text api) (all_use_counts api (col (mw s1))))
   \<and> (answer \<and> 2 \<le> length (models s) \<and> onDelete api answer s = Inr s2 \<longrightarrow>
        models s2 = all_use_counts api (col (mw s2))
        \<and> items (modelsList s2) = map (item_text api) (all_use_counts api (col (mw s2))))"
proof -
  have a: "models s1 = all_use_counts api (col (mw s1))
        \<and> items (modelsList s1) = map (item_text api) (all_use_counts api (col (mw s1)))"
    if "saveAndRefresh api nt s = Inr s1"
    using that by (auto simp add: saveAndRefresh_def Let_def split: sum.splits)
  have b: "models s2 = all_use_counts api (col (mw s2))
        \<and> items (modelsList s2) = map (item_text api) (all_use_counts api (col (mw s2)))"
    if "answer" "2 \<le> length (models s)" "onDelete api answer s = Inr s2"
    using that by (auto simp add: onDelete_def Let_def split: sum.splits if_splits)
  have c: "models (setupModels api s) = all_use_counts api (col (mw (setupModels api s)))
     \<and> items (modelsList (setupModels api s))
       = map (item_text api) (all_use_counts api (col (mw (setupModels api s))))"
    by (simp add: setupModels_def)
  have d: "models (updateModelsList api notetypes s) = notetypes
     \<and> items (modelsList (updateModelsList api notetypes s)) = map (item_text api) notetypes
     \<and> length (items (modelsList (updateModelsList api notetypes s))) = length notetypes"
    by simp
  show ?thesis using a b c d by blast
qed

text \<open>Saving a renamed first note type, and deleting the second, on two note types.\<close>

lemma save_first:
  "saveAndRefresh list_col \<lparr>nt_id = 1, nt_name = ''Front''\<rparr> (dialog_on two_types 0)
     = Inr \<lparr>mw = \<lparr>col = [\<lparr>ntid = 1, name = ''Front'', use_count = 3\<rparr>,
                              \<lparr>ntid = 2, name = ''Cloze'', use_count = 0\<rparr>],
                       calls = [Save \<lparr>nt_id = 1, nt_name = ''Front''\<rparr>]\<rparr>,
            selected_notetype_id = None,
            models = [\<lparr>ntid = 1, name = ''Front'', use_count = 3\<rparr>,
                      \<lparr>ntid = 2, name = ''Cloze'', use_count = 0\<rparr>],
            modelsList = \<lparr>items = [''Front [notes]'', ''Cloze [notes]''], current = 0\<rparr>\<rparr>"
  by (simp add: saveAndRefresh_def dialog_on_def two_types_def list_col_def list_save_def
      log_call_def Let_def updateModelsList_def currentRow_def clear_def setCurrentRow_def
      addItem_def item_text_def)

lemma delete_second:
  "onDelete list_col True (dialog_on two_types 1)
     = Inr \<lparr>mw = \<lparr>col = one_type,
               calls = [AskUser notetypes_delete_this_unused_note_type True, ModSchema True,
                        Rem (Some \<lparr>nt_id = 2, nt_name = ''Cloze''\<rparr>)]\<rparr>,
        selected_notetype_id = None,
        models = one_type,
        modelsList = \<lparr>items = map (item_text list_col) one_type, current = - 1\<rparr>\<rparr>"
  by (simp add: onDelete_def dialog_on_def two_types_def one_type_def list_col_def getitem_def
      currentRow_def current_notetype_def Let_def as_notetype_def log_call_def
      updateModelsList_def list_rem_def clear_def setCurrentRow_def addItem_def)

theorem updateModelsList_mirrors_collection_witness:
  "saveAndRefresh list_col \<lparr>nt_id = 1, nt_name = ''Front''\<rparr> (dialog_on two_types 0)
     = Inr (final (saveAndRefresh list_col \<lparr>nt_id = 1, nt_name = ''Front''\<rparr> (dialog_on two_types 0)))
   \<and> models (final (saveAndRefresh list_col \<lparr>nt_id = 1, nt_name = ''Front''\<rparr> (dialog_on two_types 0)))
       = all_use_counts list_col
           (col (mw (final (saveAndRefresh list_col \<lparr>nt_id = 1, nt_name = ''Front''\<rparr>
              (dialog_on two_types 0)))))
   \<and> 2 \<le> length (models (dialog_on two_types 1))
   \<and> onDelete list_col True (dialog_on two_types 1)
       = Inr (final (onDelete list_col True (dialog_on two_types 1)))
   \<and> models (final (onDelete list_col True (dialog_on two_types 1)))
       = all_use_counts list_col (col (mw (final (onDelete list_col True (dialog_on two_types 1)))))"
proof -
  have h1: "saveAndRefresh list_col \<lparr>nt_id = 1, nt_name = ''Front''\<rparr> (dialog_on two_types 0)
     = Inr (final (saveAndRefresh list_col \<lparr>nt_id = 1, nt_name = ''Front''\<rparr> (dialog_on two_types 0)))"
    by (simp add: save_first final_def)
  have h2: "2 \<le> length (models (dialog_on two_types 1))"
    by (simp add: dialog_on_def two_types_def)
  have h3: "onDelete list_col True (dialog_on two_types 1)
       = Inr (final (onDelete list_col True (dialog_on two_types 1)))"
    by (simp add: delete_second final_def)
  have a: "models (final (saveAndRefresh list_col \<lparr>nt_id = 1, nt_name = ''Front''\<rparr> (dialog_on two_types 0)))
       = all_use_counts list_col
           (col (mw (final (saveAndRefresh list_col \<lparr>nt_id = 1, nt_name = ''Front''\<rparr>
              (dialog_on two_types 0)))))"
    using h1 updateModelsList_mirrors_collection [where api = list_col
        and nt = "\<lparr>nt_id = 1, nt_name = ''Front''\<rparr>" and s = "dialog_on two_types 0"
        and ?s1.0 = "final (saveAndRefresh list_col \<lparr>nt_id = 1, nt_name = ''Front''\<rparr>
                       (dialog_on two_types 0))"]
    by blast
  have b: "models (final (onDelete list_col True (dialog_on two_types 1)))
       = all_use_counts list_col (col (mw (final (onDelete list_col True (dialog_on two_types 1)))))"
    using h2 h3 updateModelsList_mirrors_collection [where api = list_col
        and s = "dialog_on two_types 1" and answer = True
        and ?s2.0 = "final (onDelete list_col True (dialog_on two_types 1))"]
    by blast
  show ?thesis using h1 h2 h3 a b by blast
qed

subsection \<open>Deleting\<close>

lemma calls_log_call [simp]: "calls (log_call c w) = calls w @ [c]"
  by (simp add: log_call_def)

lemma col_log_call [simp]: "col (log_call c w) = col w"
  by (simp add: log_call_def)

lemma current_notetype_mw:
  "current_notetype api (s\<lparr>mw := w\<rparr>) =
     (case getitem (models s) (currentRow (modelsList s)) of
        Inl e \<Rightarrow> Inl e | Inr m \<Rightarrow> Inr (get api (col w) (ntid m)))"
  by (simp add: current_notetype_def split: sum.splits)

lemma new_calls_append [simp]:
  "calls (mw s') = calls (mw s) @ xs \<Longrightarrow> new_calls s s' = xs"
  by (simp add: new_calls_def)

lemma onDelete_few:
  "length (models s) < 2 \<Longrightarrow>
   onDelete api answer s =
     Inr (s\<lparr>mw := log_call (ShowInfo notetypes_please_add_another_note_type_first) (mw s)\<rparr>)"
  by (simp add: onDelete_def)

lemma onDelete_new_calls:
  "new_calls s (final (onDelete api answer s)) = [ShowInfo notetypes_please_add_another_note_type_first]
   \<or> new_calls s (final (onDelete api answer s)) = []
   \<or> (\<exists>msg. \<not> answer \<and> new_calls s (final (onDelete api answer s)) = [AskUser msg False])
   \<or> (\<exists>msg. answer \<and> new_calls s (final (onDelete api answer s)) = [AskUser msg True, ModSchema True])
   \<or> (\<exists>msg nt c. answer \<and> modSchema api True (col (mw s)) = Inr c
         \<and> current_notetype api (s\<lparr>mw := (mw s)\<lparr>col := c\<rparr>\<rparr>) = Inr nt
         \<and> new_calls s (final (onDelete api answer s)) = [AskUser msg True, ModSchema True, Rem nt])"
  by (auto simp add: onDelete_def new_calls_def final_def Let_def current_notetype_def
      split: sum.splits prod.splits)

lemma onDelete_appends:
  "calls (mw (final (onDelete api answer s))) = calls (mw s) @ new_calls s (final (onDelete api answer s))"
  by (auto simp add: onDelete_def new_calls_def final_def Let_def current_notetype_def
      split: sum.splits prod.splits)

lemma onDelete_declined:
  "\<not> answer \<Longrightarrow> col (mw (final (onDelete api answer s))) = col (mw s)"
  by (auto simp add: onDelete_def final_def Let_def split: sum.splits prod.splits)

text \<open>
  C2. In every run of \<open>onDelete\<close>, a call of \<open>models.rem\<close> comes after a call of
  \<open>askUser\<close> that returned true; when the user declines, the collection is the one the
  handler started with and \<open>models.rem\<close> is not called. The handler only appends to the
  log.
\<close>

theorem onDelete_removes_only_after_confirmation:
  "(\<forall>i < length (new_calls s (final (onDelete api answer s))).
      is_Rem (new_calls s (final (onDelete api answer s)) ! i) \<longrightarrow>
        answer \<and> (\<exists>j<i. \<exists>msg. new_calls s (final (onDelete api answer s)) ! j = AskUser msg True))
   \<and> (\<not> answer \<longrightarrow>
        col (mw (final (onDelete api answer s))) = col (mw s)
        \<and> (\<forall>c \<in> set (new_calls s (final (onDelete api answer s))). \<not> is_Rem c))
   \<and> calls (mw (final (onDelete api answer s)))
        = calls (mw s) @ new_calls s (final (onDelete api answer s))"
proof -
  let ?new = "new_calls s (final (onDelete api answer s))"
  have a: "\<forall>i < length ?new. is_Rem (?new ! i) \<longrightarrow>
             answer \<and> (\<exists>j<i. \<exists>msg. ?new ! j = AskUser msg True)"
    using onDelete_new_calls [of s api answer]
    by (elim disjE exE conjE) (auto simp add: nth_Cons' less_Suc_eq)
  have b: "\<not> answer \<longrightarrow> (\<forall>c \<in> set ?new. \<not> is_Rem c)"
    using onDelete_new_calls [of s api answer] by auto
  show ?thesis using a b onDelete_declined [of answer api s] onDelete_appends [of api answer s]
    by blast
qed

text \<open>
  C3. In every run of \<open>onDelete\<close> that calls \<open>models.rem\<close>, the call
  \<open>col.modSchema(check=True)\<close> was made before it and returned, and \<open>models.rem\<close>
  receives the current note type, read after the check.
\<close>

theorem onDelete_checks_schema_before_rem:
  "\<forall>i < length (new_calls s (final (onDelete api answer s))).
      is_Rem (new_calls s (final (onDelete api answer s)) ! i) \<longrightarrow>
        (\<exists>j<i. new_calls s (final (onDelete api answer s)) ! j = ModSchema True)
        \<and> (\<exists>c nt. modSchema api True (col (mw s)) = Inr c
              \<and> current_notetype api (s\<lparr>mw := (mw s)\<lparr>col := c\<rparr>\<rparr>) = Inr nt
              \<and> new_calls s (final (onDelete api answer s)) ! i = Rem nt)"
  using onDelete_new_calls [of s api answer]
  by (elim disjE exE conjE) (auto simp add: nth_Cons' less_Suc_eq)

text \<open>
  C8. With fewer than two note types listed, \<open>onDelete\<close> shows the message and
  returns: its only call is \<open>showInfo\<close>, so neither the schema check nor
  \<open>models.rem\<close> runs, and the collection, the cached list and the widget stay as they
  were.
\<close>

theorem onDelete_needs_two_note_types:
  assumes "length (models s) < 2"
  shows "onDelete api answer s
           = Inr (s\<lparr>mw := log_call (ShowInfo notetypes_please_add_another_note_type_first) (mw s)\<rparr>)
         \<and> new_calls s (final (onDelete api answer s))
             = [ShowInfo notetypes_please_add_another_note_type_first]
         \<and> col (mw (final (onDelete api answer s))) = col (mw s)
         \<and> models (final (onDelete api answer s)) = models s
         \<and> modelsList (final (onDelete api answer s)) = modelsList s"
  using assms by (simp add: onDelete_few final_def)

text \<open>With one note type listed the handler only shows the message.\<close>

theorem onDelete_needs_two_note_types_witness:
  "length (models (dialog_on one_type 0)) < 2
   \<and> new_calls (dialog_on one_type 0) (final (onDelete list_col True (dialog_on one_type 0)))
       = [ShowInfo notetypes_please_add_another_note_type_first]
   \<and> col (mw (final (onDelete list_col True (dialog_on one_type 0)))) = one_type
   \<and> models (final (onDelete list_col True (dialog_on one_type 0))) = one_type"
proof -
  have h: "length (models (dialog_on one_type 0)) < 2"
    by (simp add: dialog_on_def one_type_def)
  have c: "col (mw (dialog_on one_type 0)) = one_type" "models (dialog_on one_type 0) = one_type"
    by (simp_all add: dialog_on_def)
  have "new_calls (dialog_on one_type 0) (final (onDelete list_col True (dialog_on one_type 0)))
          = [ShowInfo notetypes_please_add_another_note_type_first]
        \<and> col (mw (final (onDelete list_col True (dialog_on one_type 0))))
          = col (mw (dialog_on one_type 0))
        \<and> models (final (onDelete list_col True (dialog_on one_type 0)))
          = models (dialog_on one_type 0)"
    using onDelete_needs_two_note_types [OF h, of list_col True] by blast
  then show ?thesis using h c by simp
qed

text \<open>Deleting the second of two note types.\<close>

lemma delete_second_calls:
  "new_calls (dialog_on two_types 1) (final (onDelete list_col True (dialog_on two_types 1)))
     = [AskUser notetypes_delete_this_unused_note_type True, ModSchema True,
        Rem (Some \<lparr>nt_id = 2, nt_name = ''Cloze''\<rparr>)]"
  by (simp add: delete_second final_def new_calls_def) (simp add: dialog_on_def)

theorem onDelete_removes_only_after_confirmation_witness:
  "(2 < length (new_calls (dialog_on two_types 1) (final (onDelete list_col True (dialog_on two_types 1))))
    \<and> is_Rem (new_calls (dialog_on two_types 1) (final (onDelete list_col True (dialog_on two_types 1))) ! 2)
    \<and> (\<exists>j<2. \<exists>msg. new_calls (dialog_on two_types 1)
            (final (onDelete list_col True (dialog_on two_types 1))) ! j = AskUser msg True))
   \<and> (\<not> False
    \<and> col (mw (final (onDelete list_col False (dialog_on two_types 1)))) = two_types)"
proof -
  have len: "2 < length (new_calls (dialog_on two_types 1)
      (final (onDelete list_col True (dialog_on two_types 1))))"
    and isrem: "is_Rem (new_calls (dialog_on two_types 1)
      (final (onDelete list_col True (dialog_on two_types 1))) ! 2)"
    by (simp_all add: delete_second_calls)
  have c: "col (mw (dialog_on two_types 1)) = two_types"
    by (simp add: dialog_on_def)
  have "\<exists>j<2. \<exists>msg. new_calls (dialog_on two_types 1)
            (final (onDelete list_col True (dialog_on two_types 1))) ! j = AskUser msg True"
    using len isrem
      onDelete_removes_only_after_confirmation [of "dialog_on two_types 1" list_col True]
    by blast
  moreover have "col (mw (final (onDelete list_col False (dialog_on two_types 1)))) = two_types"
    using c onDelete_removes_only_after_confirmation [of "dialog_on two_types 1" list_col False]
    by simp
  ultimately show ?thesis using len isrem by simp
qed

theorem onDelete_checks_schema_before_rem_witness:
  "2 < length (new_calls (dialog_on two_types 1) (final (onDelete list_col True (dialog_on two_types 1))))
   \<and> is_Rem (new_calls (dialog_on two_types 1) (final (onDelete list_col True (dialog_on two_types 1))) ! 2)
   \<and> (\<exists>j<2. new_calls (dialog_on two_types 1)
            (final (onDelete list_col True (dialog_on two_types 1))) ! j = ModSchema True)"
proof -
  have len: "2 < length (new_calls (dialog_on two_types 1)
      (final (onDelete list_col True (dialog_on two_types 1))))"
    and isrem: "is_Rem (new_calls (dialog_on two_types 1)
      (final (onDelete list_col True (dialog_on two_types 1))) ! 2)"
    by (simp_all add: delete_second_calls)
  have "\<exists>j<2. new_calls (dialog_on two_types 1)
            (final (onDelete list_col True (dialog_on two_types 1))) ! j = ModSchema True"
    using len isrem
      onDelete_checks_schema_before_rem [of "dialog_on two_types 1" list_col True]
    by blast
  then show ?thesis using len isrem by simp
qed

subsection \<open>Renaming and adding\<close>

lemma strip_quotes_filter: "strip_quotes text = filter (\<lambda>c. c \<noteq> CHR 0x22) text"
  by (simp add: strip_quotes_def)

lemma saveAndRefresh_calls:
  "calls (mw (final (saveAndRefresh api nt s))) = calls (mw s) @ [Save nt]"
  by (simp add: saveAndRefresh_def final_def Let_def split: sum.splits prod.splits)

lemma saveAndRefresh_returns:
  "save api nt (col (mw s)) = Inr c \<Longrightarrow>
   saveAndRefresh api nt s
     = Inr (updateModelsList api (all_use_counts api c)
              (s\<lparr>mw := (log_call (Save nt) (mw s))\<lparr>col := c\<rparr>\<rparr>))"
  by (simp add: saveAndRefresh_def Let_def)

lemma onRename_confirmed:
  "current_notetype api s = Inr (Some nt) \<Longrightarrow> accepted \<Longrightarrow> filter (\<lambda>c. c \<noteq> CHR 0x22) text \<noteq> [] \<Longrightarrow>
   onRename api (text, accepted) s =
     saveAndRefresh api (nt\<lparr>nt_name := filter (\<lambda>c. c \<noteq> CHR 0x22) text\<rparr>)
       (s\<lparr>mw := log_call (GetText actions_new_name (nt_name nt)) (mw s)\<rparr>)"
  by (simp add: onRename_def Let_def strip_quotes_filter)

lemma onRename_not_confirmed:
  "current_notetype api s = Inr (Some nt) \<Longrightarrow> \<not> (accepted \<and> filter (\<lambda>c. c \<noteq> CHR 0x22) text \<noteq> []) \<Longrightarrow>
   onRename api (text, accepted) s =
     Inr (s\<lparr>mw := log_call (GetText actions_new_name (nt_name nt)) (mw s)\<rparr>)"
  by (auto simp add: onRename_def Let_def strip_quotes_filter)

lemma onAdd_picked:
  "AddModel_get api p (mw s) = Inr d \<Longrightarrow> am_model d = Some m \<Longrightarrow>
   onAdd api p (text, accepted) s =
     saveAndRefresh api
       (if filter (\<lambda>c. c \<noteq> CHR 0x22) text \<noteq> [] then m\<lparr>nt_name := filter (\<lambda>c. c \<noteq> CHR 0x22) text\<rparr> else m)
       (s\<lparr>mw := log_call (GetText actions_name (nt_name m)) (am_mw d)\<rparr>)"
  by (simp add: onAdd_def Let_def strip_quotes_filter)

text \<open>
  C4, as the code has it. When the user accepts the prompt and the entered text with its
  double quotes removed is not empty, \<open>onRename\<close> sets the current note type's name to
  the entered text without its double quotes (every other character kept, in order) and
  passes the note type to \<open>models.save\<close>; when that call returns, the handler returns
  with the cached list and the widget rebuilt from what \<open>all_use_counts\<close> answers on
  the collection the save left.
\<close>

theorem onRename_saves_stripped_name:
  assumes "current_notetype api s = Inr (Some nt)"
    and "accepted"
    and "filter (\<lambda>c. c \<noteq> CHR 0x22) text \<noteq> []"
  shows "new_calls s (final (onRename api (text, accepted) s))
           = [GetText actions_new_name (nt_name nt),
              Save (nt\<lparr>nt_name := filter (\<lambda>c. c \<noteq> CHR 0x22) text\<rparr>)]
         \<and> (save api (nt\<lparr>nt_name := filter (\<lambda>c. c \<noteq> CHR 0x22) text\<rparr>) (col (mw s)) = Inr c \<longrightarrow>
              onRename api (text, accepted) s = Inr (final (onRename api (text, accepted) s))
              \<and> col (mw (final (onRename api (text, accepted) s))) = c
              \<and> models (final (onRename api (text, accepted) s)) = all_use_counts api c
              \<and> items (modelsList (final (onRename api (text, accepted) s)))
                  = map (item_text api) (all_use_counts api c))"
proof -
  have eq: "onRename api (text, accepted) s =
     saveAndRefresh api (nt\<lparr>nt_name := filter (\<lambda>c. c \<noteq> CHR 0x22) text\<rparr>)
       (s\<lparr>mw := log_call (GetText actions_new_name (nt_name nt)) (mw s)\<rparr>)"
    using assms by (rule onRename_confirmed)
  have a: "new_calls s (final (onRename api (text, accepted) s))
           = [GetText actions_new_name (nt_name nt),
              Save (nt\<lparr>nt_name := filter (\<lambda>c. c \<noteq> CHR 0x22) text\<rparr>)]"
    by (simp add: eq saveAndRefresh_calls)
  have b: "onRename api (text, accepted) s = Inr (final (onRename api (text, accepted) s))
              \<and> col (mw (final (onRename api (text, accepted) s))) = c
              \<and> models (final (onRename api (text, accepted) s)) = all_use_counts api c
              \<and> items (modelsList (final (onRename api (text, accepted) s)))
                  = map (item_text api) (all_use_counts api c)"
    if "save api (nt\<lparr>nt_name := filter (\<lambda>c. c \<noteq> CHR 0x22) text\<rparr>) (col (mw s)) = Inr c"
    using that by (simp add: eq saveAndRefresh_returns final_def)
  show ?thesis using a b by blast
qed

text \<open>
  C9. The name \<open>onRename\<close> and \<open>onAdd\<close> hand to \<open>models.save\<close> is the entered text
  without its double quotes: every character that is not a double quote is kept, in
  order, and no double quote is. \<open>onAdd\<close> keeps the picked note type's own name when
  nothing is left of the text. A rename that is cancelled, or whose stripped name is
  empty, only prompts: nothing is saved, and the collection and the cached list stay as
  they were.
\<close>

theorem names_are_stored_without_quotes:
  "(current_notetype api s = Inr (Some nt) \<and> accepted \<and> filter (\<lambda>c. c \<noteq> CHR 0x22) text \<noteq> [] \<longrightarrow>
        new_calls s (final (onRename api (text, accepted) s))
          = [GetText actions_new_name (nt_name nt),
             Save (nt\<lparr>nt_name := filter (\<lambda>c. c \<noteq> CHR 0x22) text\<rparr>)])
   \<and> (current_notetype api s = Inr (Some nt) \<and> \<not> (accepted \<and> filter (\<lambda>c. c \<noteq> CHR 0x22) text \<noteq> []) \<longrightarrow>
        onRename api (text, accepted) s
          = Inr (s\<lparr>mw := log_call (GetText actions_new_name (nt_name nt)) (mw s)\<rparr>)
        \<and> new_calls s (final (onRename api (text, accepted) s))
          = [GetText actions_new_name (nt_name nt)]
        \<and> col (mw (final (onRename api (text, accepted) s))) = col (mw s)
        \<and> models (final (onRename api (text, accepted) s)) = models s)
   \<and> (AddModel_get api p (mw s) = Inr d \<and> am_model d = Some m \<and> filter (\<lambda>c. c \<noteq> CHR 0x22) text \<noteq> [] \<longrightarrow>
        calls (mw (final (onAdd api p (text, accepted) s)))
          = calls (am_mw d) @ [GetText actions_name (nt_name m),
                               Save (m\<lparr>nt_name := filter (\<lambda>c. c \<noteq> CHR 0x22) text\<rparr>)])
   \<and> (AddModel_get api p (mw s) = Inr d \<and> am_model d = Some m \<and> filter (\<lambda>c. c \<noteq> CHR 0x22) text = [] \<longrightarrow>
        calls (mw (final (onAdd api p (text, accepted) s)))
          = calls (am_mw d) @ [GetText actions_name (nt_name m), Save m])
   \<and> CHR 0x22 \<notin> set (filter (\<lambda>c. c \<noteq> CHR 0x22) text)
   \<and> (\<forall>ch. ch \<noteq> CHR 0x22 \<longrightarrow>
          count_list (filter (\<lambda>c. c \<noteq> CHR 0x22) text) ch = count_list text ch)"
proof -
  have a: "new_calls s (final (onRename api (text, accepted) s))
          = [GetText actions_new_name (nt_name nt),
             Save (nt\<lparr>nt_name := filter (\<lambda>c. c \<noteq> CHR 0x22) text\<rparr>)]"
    if "current_notetype api s = Inr (Some nt)" "accepted" "filter (\<lambda>c. c \<noteq> CHR 0x22) text \<noteq> []"
    using that by (simp add: onRename_confirmed saveAndRefresh_calls)
  have b: "onRename api (text, accepted) s
          = Inr (s\<lparr>mw := log_call (GetText actions_new_name (nt_name nt)) (mw s)\<rparr>)
        \<and> new_calls s (final (onRename api (text, accepted) s))
          = [GetText actions_new_name (nt_name nt)]
        \<and> col (mw (final (onRename api (text, accepted) s))) = col (mw s)
        \<and> models (final (onRename api (text, accepted) s)) = models s"
    if "current_notetype api s = Inr (Some nt)" "\<not> (accepted \<and> filter (\<lambda>c. c \<noteq> CHR 0x22) text \<noteq> [])"
    using that by (simp add: onRename_not_confirmed final_def)
  have c: "calls (mw (final (onAdd api p (text, accepted) s)))
          = calls (am_mw d) @ [GetText actions_name (nt_name m),
                               Save (m\<lparr>nt_name := filter (\<lambda>c. c \<noteq> CHR 0x22) text\<rparr>)]"
    if "AddModel_get api p (mw s) = Inr d" "am_model d = Some m" "filter (\<lambda>c. c \<noteq> CHR 0x22) text \<noteq> []"
    using that by (simp add: onAdd_picked saveAndRefresh_calls)
  have d: "calls (mw (final (onAdd api p (text, accepted) s)))
          = calls (am_mw d) @ [GetText actions_name (nt_name m), Save m]"
    if "AddModel_get api p (mw s) = Inr d" "am_model d = Some m" "filter (\<lambda>c. c \<noteq> CHR 0x22) text = []"
    using that by (simp add: onAdd_picked saveAndRefresh_calls)
  have e: "CHR 0x22 \<notin> set (filter (\<lambda>c. c \<noteq> CHR 0x22) text)"
    by simp
  have f: "\<forall>ch. ch \<noteq> CHR 0x22 \<longrightarrow>
          count_list (filter (\<lambda>c. c \<noteq> CHR 0x22) text) ch = count_list text ch"
    by (induction "text") auto
  show ?thesis using a b c d e f by blast
qed

text \<open>Renaming the first of two note types to \<open>a"b\<close>, and to \<open>"\<close>.\<close>

lemma current_first:
  "current_notetype list_col (dialog_on two_types 0) = Inr (Some \<lparr>nt_id = 1, nt_name = ''Basic''\<rparr>)"
  by (simp add: dialog_on_def two_types_def list_col_def getitem_def currentRow_def
      current_notetype_def as_notetype_def)

lemma rename_first:
  "onRename list_col ([CHR ''a'', CHR 0x22, CHR ''b''], True) (dialog_on two_types 0)
     = Inr \<lparr>mw = \<lparr>col = [\<lparr>ntid = 1, name = ''ab'', use_count = 3\<rparr>,
                              \<lparr>ntid = 2, name = ''Cloze'', use_count = 0\<rparr>],
                       calls = [GetText actions_new_name ''Basic'',
                                Save \<lparr>nt_id = 1, nt_name = ''ab''\<rparr>]\<rparr>,
            selected_notetype_id = None,
            models = [\<lparr>ntid = 1, name = ''ab'', use_count = 3\<rparr>,
                      \<lparr>ntid = 2, name = ''Cloze'', use_count = 0\<rparr>],
            modelsList = \<lparr>items = [''ab [notes]'', ''Cloze [notes]''], current = 0\<rparr>\<rparr>"
  by (simp add: onRename_def saveAndRefresh_def dialog_on_def two_types_def list_col_def
      list_save_def getitem_def current_notetype_def as_notetype_def strip_quotes_def
      log_call_def Let_def updateModelsList_def currentRow_def clear_def setCurrentRow_def
      addItem_def item_text_def)

lemma rename_first_calls:
  "new_calls (dialog_on two_types 0)
     (final (onRename list_col ([CHR ''a'', CHR 0x22, CHR ''b''], True) (dialog_on two_types 0)))
     = [GetText actions_new_name ''Basic'', Save \<lparr>nt_id = 1, nt_name = ''ab''\<rparr>]"
  by (simp add: rename_first final_def new_calls_def) (simp add: dialog_on_def)

text \<open>
  C4 as stated fails: the user accepts the non-empty text \<open>a"b\<close>, and the note type
  saved is named \<open>ab\<close>, not the entered text.
\<close>

theorem onRename_does_not_save_entered_text:
  "current_notetype list_col (dialog_on two_types 0) = Inr (Some \<lparr>nt_id = 1, nt_name = ''Basic''\<rparr>)
   \<and> [CHR ''a'', CHR 0x22, CHR ''b''] \<noteq> []
   \<and> Save \<lparr>nt_id = 1, nt_name = [CHR ''a'', CHR 0x22, CHR ''b'']\<rparr>
       \<notin> set (new_calls (dialog_on two_types 0)
           (final (onRename list_col ([CHR ''a'', CHR 0x22, CHR ''b''], True) (dialog_on two_types 0))))
   \<and> Save \<lparr>nt_id = 1, nt_name = ''ab''\<rparr>
       \<in> set (new_calls (dialog_on two_types 0)
           (final (onRename list_col ([CHR ''a'', CHR 0x22, CHR ''b''], True) (dialog_on two_types 0))))"
  by (simp add: rename_first_calls current_first)

lemma save_ab:
  "save list_col (\<lparr>nt_id = 1, nt_name = ''Basic''\<rparr>\<lparr>nt_name := ''ab''\<rparr>)
     (col (mw (dialog_on two_types 0)))
     = Inr [\<lparr>ntid = 1, name = ''ab'', use_count = 3\<rparr>, \<lparr>ntid = 2, name = ''Cloze'', use_count = 0\<rparr>]"
  by (simp add: list_col_def list_save_def dialog_on_def two_types_def)

theorem onRename_saves_stripped_name_witness:
  "current_notetype list_col (dialog_on two_types 0) = Inr (Some \<lparr>nt_id = 1, nt_name = ''Basic''\<rparr>)
   \<and> filter (\<lambda>c. c \<noteq> CHR 0x22) [CHR ''a'', CHR 0x22, CHR ''b''] = ''ab''
   \<and> new_calls (dialog_on two_types 0)
         (final (onRename list_col ([CHR ''a'', CHR 0x22, CHR ''b''], True) (dialog_on two_types 0)))
       = [GetText actions_new_name ''Basic'', Save \<lparr>nt_id = 1, nt_name = ''ab''\<rparr>]
   \<and> save list_col \<lparr>nt_id = 1, nt_name = ''ab''\<rparr> (col (mw (dialog_on two_types 0)))
       = Inr [\<lparr>ntid = 1, name = ''ab'', use_count = 3\<rparr>, \<lparr>ntid = 2, name = ''Cloze'', use_count = 0\<rparr>]
   \<and> models (final (onRename list_col ([CHR ''a'', CHR 0x22, CHR ''b''], True) (dialog_on two_types 0)))
       = [\<lparr>ntid = 1, name = ''ab'', use_count = 3\<rparr>, \<lparr>ntid = 2, name = ''Cloze'', use_count = 0\<rparr>]
   \<and> items (modelsList (final (onRename list_col ([CHR ''a'', CHR 0x22, CHR ''b''], True) (dialog_on two_types 0))))
       = [''ab [notes]'', ''Cloze [notes]'']"
proof -
  have h1: "current_notetype list_col (dialog_on two_types 0)
      = Inr (Some \<lparr>nt_id = 1, nt_name = ''Basic''\<rparr>)"
    by (rule current_first)
  have st: "filter (\<lambda>c. c \<noteq> CHR 0x22) [CHR ''a'', CHR 0x22, CHR ''b''] = ''ab''"
    by simp
  have h2: "filter (\<lambda>c. c \<noteq> CHR 0x22) [CHR ''a'', CHR 0x22, CHR ''b''] \<noteq> []"
    by simp
  have h3: "save list_col (\<lparr>nt_id = 1, nt_name = ''Basic''\<rparr>
        \<lparr>nt_name := filter (\<lambda>c. c \<noteq> CHR 0x22) [CHR ''a'', CHR 0x22, CHR ''b'']\<rparr>) (col (mw (dialog_on two_types 0)))
       = Inr [\<lparr>ntid = 1, name = ''ab'', use_count = 3\<rparr>, \<lparr>ntid = 2, name = ''Cloze'', use_count = 0\<rparr>]"
    using save_ab by (simp only: st)
  have uc: "all_use_counts list_col
       [\<lparr>ntid = 1, name = ''ab'', use_count = 3\<rparr>, \<lparr>ntid = 2, name = ''Cloze'', use_count = 0\<rparr>]
     = [\<lparr>ntid = 1, name = ''ab'', use_count = 3\<rparr>, \<lparr>ntid = 2, name = ''Cloze'', use_count = 0\<rparr>]"
    and tx: "map (item_text list_col)
       [\<lparr>ntid = 1, name = ''ab'', use_count = 3\<rparr>, \<lparr>ntid = 2, name = ''Cloze'', use_count = 0\<rparr>]
     = [''ab [notes]'', ''Cloze [notes]'']"
    by (simp_all add: list_col_def item_text_def)
  note inst = onRename_saves_stripped_name [OF h1 TrueI h2, where
      c = "[\<lparr>ntid = 1, name = ''ab'', use_count = 3\<rparr>, \<lparr>ntid = 2, name = ''Cloze'', use_count = 0\<rparr>]"]
  have a': "new_calls (dialog_on two_types 0)
         (final (onRename list_col ([CHR ''a'', CHR 0x22, CHR ''b''], True) (dialog_on two_types 0)))
       = [GetText actions_new_name ''Basic'', Save \<lparr>nt_id = 1, nt_name = ''ab''\<rparr>]"
    using inst [THEN conjunct1] by simp
  have b': "models (final (onRename list_col ([CHR ''a'', CHR 0x22, CHR ''b''], True) (dialog_on two_types 0)))
       = [\<lparr>ntid = 1, name = ''ab'', use_count = 3\<rparr>, \<lparr>ntid = 2, name = ''Cloze'', use_count = 0\<rparr>]
     \<and> items (modelsList (final (onRename list_col ([CHR ''a'', CHR 0x22, CHR ''b''], True) (dialog_on two_types 0))))
       = [''ab [notes]'', ''Cloze [notes]'']"
    using inst [THEN conjunct2, THEN mp, OF h3, THEN conjunct2, THEN conjunct2]
    by (simp only: uc tx)
  have s': "save list_col \<lparr>nt_id = 1, nt_name = ''ab''\<rparr> (col (mw (dialog_on two_types 0)))
       = Inr [\<lparr>ntid = 1, name = ''ab'', use_count = 3\<rparr>, \<lparr>ntid = 2, name = ''Cloze'', use_count = 0\<rparr>]"
    using save_ab by simp
  show ?thesis using h1 st a' b' s' by blast
qed

subsection \<open>The picker\<close>

lemma am_models_add_std:
  "am_models (add_std api xs d) = am_models d @ map (\<lambda>x. Std (snd x)) xs"
  by (induction xs arbitrary: d) auto

lemma am_models_add_copies:
  "am_models (add_copies api ms d) = am_models d @ map Existing ms"
  by (induction ms arbitrary: d) auto

lemma am_models_AddModel_init:
  "am_models (AddModel_init api w)
     = map (\<lambda>x. Std (snd x)) (get_stock_notetypes api (col w))
       @ map Existing (sort_key nt_name (all_notetypes api (col w)))"
  by (simp add: AddModel_init_def Let_def am_models_add_std am_models_add_copies)

text \<open>
  C5. Accepting the picker with an existing note type selected returns normally with
  \<open>model\<close> the result of \<open>models.copy\<close> on that note type, made current by
  \<open>models.setCurrent\<close>: the two calls are logged in that order. Accepting with a stock
  entry selected returns with \<open>model\<close> what the entry's function builds, and logs no
  call: neither \<open>models.copy\<close> nor \<open>models.setCurrent\<close> runs.
\<close>

theorem accept_copies_existing_or_builds_stock:
  "(getitem (am_models d) (currentRow (dialog_models d)) = Inr (Existing m) \<longrightarrow>
      accept api d = Inr (final (accept api d))
      \<and> am_model (final (accept api d)) = Some (fst (copy api m (col (am_mw d))))
      \<and> col (am_mw (final (accept api d)))
          = setCurrent api (fst (copy api m (col (am_mw d)))) (snd (copy api m (col (am_mw d))))
      \<and> calls (am_mw (final (accept api d)))
          = calls (am_mw d) @ [Copy m, SetCurrent (fst (copy api m (col (am_mw d))))])
   \<and> (getitem (am_models d) (currentRow (dialog_models d)) = Inr (Std func) \<longrightarrow>
      accept api d = Inr (final (accept api d))
      \<and> am_model (final (accept api d)) = Some (fst (func (col (am_mw d))))
      \<and> col (am_mw (final (accept api d))) = snd (func (col (am_mw d)))
      \<and> calls (am_mw (final (accept api d))) = calls (am_mw d))"
  by (simp add: accept_def final_def Let_def)

text \<open>The picker over the two note types: one stock entry, then the two copies.\<close>

lemma sorted_two: "sort_key nt_name (map as_notetype two_types) = map as_notetype two_types"
  by (simp add: two_types_def as_notetype_def)

lemma picker_models:
  "am_models (picker row)
    = [Std (\<lambda>c'. (\<lparr>nt_id = 0, nt_name = ''Basic''\<rparr>, c')),
       Existing \<lparr>nt_id = 1, nt_name = ''Basic''\<rparr>, Existing \<lparr>nt_id = 2, nt_name = ''Cloze''\<rparr>]"
  apply (simp add: picker_def am_models_AddModel_init)
  apply (simp add: list_col_def sorted_two)
  apply (simp add: two_types_def as_notetype_def)
  done

lemma picker_row:
  "currentRow (dialog_models (picker 2)) = 2" "currentRow (dialog_models (picker 0)) = 0"
  by (simp_all add: picker_def AddModel_init_def Let_def list_col_def sorted_two
       currentRow_def setCurrentRow_def addItem_def two_types_def as_notetype_def)

lemma am_mw_add_std [simp]: "am_mw (add_std api xs d) = am_mw d"
  by (induction xs arbitrary: d) auto

lemma am_mw_add_copies [simp]: "am_mw (add_copies api ms d) = am_mw d"
  by (induction ms arbitrary: d) auto

lemma am_mw_AddModel_init [simp]: "am_mw (AddModel_init api w) = w"
  by (simp add: AddModel_init_def Let_def)

lemma picker_mw: "am_mw (picker row) = \<lparr>col = two_types, calls = []\<rparr>"
  by (simp add: picker_def)

lemma picker_selected:
  "getitem (am_models (picker 2)) (currentRow (dialog_models (picker 2)))
     = Inr (Existing \<lparr>nt_id = 2, nt_name = ''Cloze''\<rparr>)"
  "getitem (am_models (picker 0)) (currentRow (dialog_models (picker 0)))
     = Inr (Std (\<lambda>c'. (\<lparr>nt_id = 0, nt_name = ''Basic''\<rparr>, c')))"
  by (simp_all add: picker_models picker_row getitem_def)

lemma copy_cloze:
  "copy list_col \<lparr>nt_id = 2, nt_name = ''Cloze''\<rparr> two_types
     = (\<lparr>nt_id = 3, nt_name = ''Cloze copy''\<rparr>,
        two_types @ [\<lparr>ntid = 3, name = ''Cloze copy'', use_count = 0\<rparr>])"
  by (simp add: list_col_def list_copy_def two_types_def Let_def)

theorem accept_copies_existing_or_builds_stock_witness:
  "getitem (am_models (picker 2)) (currentRow (dialog_models (picker 2)))
     = Inr (Existing \<lparr>nt_id = 2, nt_name = ''Cloze''\<rparr>)
   \<and> am_model (final (accept list_col (picker 2))) = Some \<lparr>nt_id = 3, nt_name = ''Cloze copy''\<rparr>
   \<and> calls (am_mw (final (accept list_col (picker 2))))
       = [Copy \<lparr>nt_id = 2, nt_name = ''Cloze''\<rparr>, SetCurrent \<lparr>nt_id = 3, nt_name = ''Cloze copy''\<rparr>]
   \<and> getitem (am_models (picker 0)) (currentRow (dialog_models (picker 0)))
     = Inr (Std (\<lambda>c'. (\<lparr>nt_id = 0, nt_name = ''Basic''\<rparr>, c')))
   \<and> am_model (final (accept list_col (picker 0))) = Some \<lparr>nt_id = 0, nt_name = ''Basic''\<rparr>
   \<and> calls (am_mw (final (accept list_col (picker 0)))) = []"
proof -
  have a: "am_model (final (accept list_col (picker 2))) = Some \<lparr>nt_id = 3, nt_name = ''Cloze copy''\<rparr>
    \<and> calls (am_mw (final (accept list_col (picker 2))))
       = [Copy \<lparr>nt_id = 2, nt_name = ''Cloze''\<rparr>, SetCurrent \<lparr>nt_id = 3, nt_name = ''Cloze copy''\<rparr>]"
    using picker_selected(1) picker_mw [of 2] copy_cloze
      accept_copies_existing_or_builds_stock [of "picker 2" "\<lparr>nt_id = 2, nt_name = ''Cloze''\<rparr>"
        list_col]
    by simp
  have b: "am_model (final (accept list_col (picker 0))) = Some \<lparr>nt_id = 0, nt_name = ''Basic''\<rparr>
    \<and> calls (am_mw (final (accept list_col (picker 0)))) = []"
    using picker_selected(2) picker_mw [of 0]
      accept_copies_existing_or_builds_stock [of "picker 0" _ list_col
        "\<lambda>c'. (\<lparr>nt_id = 0, nt_name = ''Basic''\<rparr>, c')"]
    by simp
  show ?thesis using a b picker_selected by blast
qed

text \<open>
  Adding over the two note types: the user picks the copy of the second one and enters
  \<open>a"b\<close>.
\<close>

lemma get_picker:
  "AddModel_get list_col (Choose row) (mw (dialog_on two_types 0)) = accept list_col (picker row)"
  by (simp add: AddModel_get_def exec_AddModel_def picker_def dialog_on_def)

lemma accept_picker_cloze:
  "accept list_col (picker 2)
     = Inr ((picker 2)\<lparr>am_model := Some \<lparr>nt_id = 3, nt_name = ''Cloze copy''\<rparr>,
          am_mw := \<lparr>col = two_types @ [\<lparr>ntid = 3, name = ''Cloze copy'', use_count = 0\<rparr>],
                    calls = [Copy \<lparr>nt_id = 2, nt_name = ''Cloze''\<rparr>,
                             SetCurrent \<lparr>nt_id = 3, nt_name = ''Cloze copy''\<rparr>]\<rparr>\<rparr>)"
  by (simp add: accept_def picker_selected picker_mw copy_cloze Let_def log_call_def)
     (simp add: list_col_def)

theorem names_are_stored_without_quotes_witness:
  "current_notetype list_col (dialog_on two_types 0) = Inr (Some \<lparr>nt_id = 1, nt_name = ''Basic''\<rparr>)
   \<and> filter (\<lambda>c. c \<noteq> CHR 0x22) [CHR ''a'', CHR 0x22, CHR ''b''] = ''ab''
   \<and> new_calls (dialog_on two_types 0)
         (final (onRename list_col ([CHR ''a'', CHR 0x22, CHR ''b''], True) (dialog_on two_types 0)))
       = [GetText actions_new_name ''Basic'', Save \<lparr>nt_id = 1, nt_name = ''ab''\<rparr>]
   \<and> filter (\<lambda>c. c \<noteq> CHR 0x22) [CHR 0x22] = []
   \<and> new_calls (dialog_on two_types 0)
         (final (onRename list_col ([CHR 0x22], True) (dialog_on two_types 0)))
       = [GetText actions_new_name ''Basic'']
   \<and> col (mw (final (onRename list_col ([CHR 0x22], True) (dialog_on two_types 0)))) = two_types
   \<and> AddModel_get list_col (Choose 2) (mw (dialog_on two_types 0))
       = Inr (final (accept list_col (picker 2)))
   \<and> am_model (final (accept list_col (picker 2))) = Some \<lparr>nt_id = 3, nt_name = ''Cloze copy''\<rparr>
   \<and> calls (mw (final (onAdd list_col (Choose 2) ([CHR ''a'', CHR 0x22, CHR ''b''], True) (dialog_on two_types 0))))
       = [Copy \<lparr>nt_id = 2, nt_name = ''Cloze''\<rparr>, SetCurrent \<lparr>nt_id = 3, nt_name = ''Cloze copy''\<rparr>,
          GetText actions_name ''Cloze copy'', Save \<lparr>nt_id = 3, nt_name = ''ab''\<rparr>]
   \<and> calls (mw (final (onAdd list_col (Choose 2) ([CHR 0x22], True) (dialog_on two_types 0))))
       = [Copy \<lparr>nt_id = 2, nt_name = ''Cloze''\<rparr>, SetCurrent \<lparr>nt_id = 3, nt_name = ''Cloze copy''\<rparr>,
          GetText actions_name ''Cloze copy'', Save \<lparr>nt_id = 3, nt_name = ''Cloze copy''\<rparr>]"
proof -
  have h1: "current_notetype list_col (dialog_on two_types 0)
      = Inr (Some \<lparr>nt_id = 1, nt_name = ''Basic''\<rparr>)"
    by (rule current_first)
  have st: "filter (\<lambda>c. c \<noteq> CHR 0x22) [CHR ''a'', CHR 0x22, CHR ''b''] = ''ab''"
    and h2: "filter (\<lambda>c. c \<noteq> CHR 0x22) [CHR ''a'', CHR 0x22, CHR ''b''] \<noteq> []"
    and e: "filter (\<lambda>c. c \<noteq> CHR 0x22) [CHR 0x22] = []"
    and h3: "\<not> (True \<and> filter (\<lambda>c. c \<noteq> CHR 0x22) [CHR 0x22] \<noteq> [])"
    by simp_all
  have c: "col (mw (dialog_on two_types 0)) = two_types"
    by (simp add: dialog_on_def)
  have g: "AddModel_get list_col (Choose 2) (mw (dialog_on two_types 0))
      = Inr (final (accept list_col (picker 2)))"
    and m: "am_model (final (accept list_col (picker 2))) = Some \<lparr>nt_id = 3, nt_name = ''Cloze copy''\<rparr>"
    and cs: "calls (am_mw (final (accept list_col (picker 2))))
      = [Copy \<lparr>nt_id = 2, nt_name = ''Cloze''\<rparr>, SetCurrent \<lparr>nt_id = 3, nt_name = ''Cloze copy''\<rparr>]"
    by (simp_all add: get_picker accept_picker_cloze final_def)
  note ab = names_are_stored_without_quotes [where api = list_col and s = "dialog_on two_types 0"
      and nt = "\<lparr>nt_id = 1, nt_name = ''Basic''\<rparr>" and accepted = True and ?text = "[CHR ''a'', CHR 0x22, CHR ''b'']"
      and p = "Choose 2" and d = "final (accept list_col (picker 2))"
      and m = "\<lparr>nt_id = 3, nt_name = ''Cloze copy''\<rparr>"]
  note qq = names_are_stored_without_quotes [where api = list_col and s = "dialog_on two_types 0"
      and nt = "\<lparr>nt_id = 1, nt_name = ''Basic''\<rparr>" and accepted = True and ?text = "[CHR 0x22]"
      and p = "Choose 2" and d = "final (accept list_col (picker 2))"
      and m = "\<lparr>nt_id = 3, nt_name = ''Cloze copy''\<rparr>"]
  have a: "new_calls (dialog_on two_types 0)
         (final (onRename list_col ([CHR ''a'', CHR 0x22, CHR ''b''], True) (dialog_on two_types 0)))
       = [GetText actions_new_name ''Basic'', Save \<lparr>nt_id = 1, nt_name = ''ab''\<rparr>]"
    using ab [THEN conjunct1, THEN mp, OF conjI [OF h1 conjI [OF TrueI h2]]] by simp
  have b: "new_calls (dialog_on two_types 0)
         (final (onRename list_col ([CHR 0x22], True) (dialog_on two_types 0)))
       = [GetText actions_new_name ''Basic'']
     \<and> col (mw (final (onRename list_col ([CHR 0x22], True) (dialog_on two_types 0)))) = two_types"
    using qq [THEN conjunct2, THEN conjunct1, THEN mp, OF conjI [OF h1 h3], THEN conjunct2] c
    by simp
  have d1: "calls (mw (final (onAdd list_col (Choose 2) ([CHR ''a'', CHR 0x22, CHR ''b''], True) (dialog_on two_types 0))))
       = [Copy \<lparr>nt_id = 2, nt_name = ''Cloze''\<rparr>, SetCurrent \<lparr>nt_id = 3, nt_name = ''Cloze copy''\<rparr>,
          GetText actions_name ''Cloze copy'', Save \<lparr>nt_id = 3, nt_name = ''ab''\<rparr>]"
    using ab [THEN conjunct2, THEN conjunct2, THEN conjunct1, THEN mp,
        OF conjI [OF g conjI [OF m h2]]] cs
    by simp
  have d2: "calls (mw (final (onAdd list_col (Choose 2) ([CHR 0x22], True) (dialog_on two_types 0))))
       = [Copy \<lparr>nt_id = 2, nt_name = ''Cloze''\<rparr>, SetCurrent \<lparr>nt_id = 3, nt_name = ''Cloze copy''\<rparr>,
          GetText actions_name ''Cloze copy'', Save \<lparr>nt_id = 3, nt_name = ''Cloze copy''\<rparr>]"
    using qq [THEN conjunct2, THEN conjunct2, THEN conjunct2, THEN conjunct1, THEN mp,
        OF conjI [OF g conjI [OF m e]]] cs
    by simp
  show ?thesis using h1 st e a b g m d1 d2 by blast
qed

subsection \<open>The selection\<close>

lemma select_first_hit:
  "i < length ms \<Longrightarrow> ntid (ms ! i) = sel \<Longrightarrow> (\<forall>j<i. ntid (ms ! j) \<noteq> sel) \<Longrightarrow>
   select_first sel k ms w = setCurrentRow (int (k + i)) w"
proof (induction ms arbitrary: i k)
  case Nil
  then show ?case by simp
next
  case (Cons m ms)
  show ?case
  proof (cases i)
    case 0
    with Cons.prems show ?thesis by simp
  next
    case (Suc i')
    from Cons.prems(3) Suc have "ntid m \<noteq> sel" by auto
    moreover have "select_first sel (Suc k) ms w = setCurrentRow (int (Suc k + i')) w"
    proof (rule Cons.IH)
      show "i' < length ms" using Cons.prems(1) Suc by simp
      show "ntid (ms ! i') = sel" using Cons.prems(2) Suc by simp
      show "\<forall>j<i'. ntid (ms ! j) \<noteq> sel"
      proof (intro allI impI)
        fix j assume "j < i'"
        then have "Suc j < i" using Suc by simp
        with Cons.prems(3) have "ntid ((m # ms) ! Suc j) \<noteq> sel" by blast
        then show "ntid (ms ! j) \<noteq> sel" by simp
      qed
    qed
    ultimately show ?thesis using Suc by simp
  qed
qed

lemma select_first_miss:
  "\<forall>m \<in> set ms. ntid m \<noteq> sel \<Longrightarrow> select_first sel k ms w = w"
  by (induction ms arbitrary: k) auto

text \<open>What \<open>maybe_select_provided_notetype\<close> does on any dialog.\<close>

lemma maybe_select_cases:
  "(selected_notetype_id s = None \<or> selected_notetype_id s = Some 0 \<longrightarrow>
      maybe_select_provided_notetype s = s\<lparr>modelsList := setCurrentRow 0 (modelsList s)\<rparr>)
   \<and> (selected_notetype_id s = Some sel \<and> sel \<noteq> 0 \<and> i < length (models s)
       \<and> ntid (models s ! i) = sel \<and> (\<forall>j<i. ntid (models s ! j) \<noteq> sel) \<longrightarrow>
      maybe_select_provided_notetype s = s\<lparr>modelsList := setCurrentRow (int i) (modelsList s)\<rparr>
      \<and> (length (items (modelsList s)) = length (models s) \<longrightarrow>
           currentRow (modelsList (maybe_select_provided_notetype s)) = int i))
   \<and> (selected_notetype_id s = Some sel \<and> sel \<noteq> 0 \<and> (\<forall>m \<in> set (models s). ntid m \<noteq> sel) \<longrightarrow>
      maybe_select_provided_notetype s = s)"
proof -
  have a: "selected_notetype_id s = None \<or> selected_notetype_id s = Some 0 \<longrightarrow>
      maybe_select_provided_notetype s = s\<lparr>modelsList := setCurrentRow 0 (modelsList s)\<rparr>"
    by (auto simp add: maybe_select_provided_notetype_def)
  have b: "maybe_select_provided_notetype s = s\<lparr>modelsList := setCurrentRow (int i) (modelsList s)\<rparr>"
    if "selected_notetype_id s = Some sel" "sel \<noteq> 0" "i < length (models s)"
      "ntid (models s ! i) = sel" "\<forall>j<i. ntid (models s ! j) \<noteq> sel"
    using that select_first_hit [of i "models s" sel 0 "modelsList s"]
    by (simp add: maybe_select_provided_notetype_def)
  have b': "currentRow (modelsList (s\<lparr>modelsList := setCurrentRow (int i) (modelsList s)\<rparr>)) = int i"
    if "i < length (models s)" "length (items (modelsList s)) = length (models s)"
    using that by (simp add: currentRow_def setCurrentRow_def)
  have c: "maybe_select_provided_notetype s = s"
    if "selected_notetype_id s = Some sel" "sel \<noteq> 0" "\<forall>m \<in> set (models s). ntid m \<noteq> sel"
    using that select_first_miss [of "models s" sel 0 "modelsList s"]
    by (simp add: maybe_select_provided_notetype_def)
  show ?thesis using a b b' c by metis
qed

text \<open>The dialog after the initial load.\<close>

lemma setupModels_initial_load:
  "setupModels api (Models_init w sel) = maybe_select_provided_notetype (initial_load api w sel)"
  by (simp add: setupModels_def initial_load_def Models_init_def)

lemma initial_load_fields:
  "selected_notetype_id (initial_load api w sel) = sel"
  "models (initial_load api w sel) = all_use_counts api (col w)"
  "items (modelsList (initial_load api w sel)) = map (item_text api) (all_use_counts api (col w))"
  "current (modelsList (initial_load api w sel)) = (if all_use_counts api (col w) = [] then - 1 else 0)"
  by (simp_all add: initial_load_def Models_init_def)
     (simp add: updateModelsList_def Let_def setCurrentRow_def clear_def items_add_items
       currentRow_def)

lemma select_row_0_again:
  "(initial_load api w sel)\<lparr>modelsList := setCurrentRow 0 (modelsList (initial_load api w sel))\<rparr>
     = initial_load api w sel"
proof -
  have "setCurrentRow 0 (modelsList (initial_load api w sel)) = modelsList (initial_load api w sel)"
    by (simp add: setCurrentRow_def initial_load_fields)
  then show ?thesis by simp
qed

text \<open>
  C10. The collection lists no note type under the id 0. After the initial list load,
  \<open>maybe_select_provided_notetype\<close> makes row 0 current when no id was given to the
  constructor; when an id was given and some cached entry has it, the first such row
  becomes the widget's current row; when an id was given and no cached entry has it, the
  dialog is left as the load left it. \<open>setupModels\<close> ends in that state.
\<close>

theorem maybe_select_provided_notetype_selects:
  assumes "\<forall>m \<in> set (all_use_counts api (col w)). ntid m \<noteq> 0"
  shows "(sel = None \<longrightarrow>
            maybe_select_provided_notetype (initial_load api w sel)
              = (initial_load api w sel)
                  \<lparr>modelsList := setCurrentRow 0 (modelsList (initial_load api w sel))\<rparr>
            \<and> (all_use_counts api (col w) \<noteq> [] \<longrightarrow>
                 currentRow (modelsList (maybe_select_provided_notetype (initial_load api w sel))) = 0))
         \<and> (sel = Some k \<and> i < length (models (initial_load api w sel))
              \<and> ntid (models (initial_load api w sel) ! i) = k
              \<and> (\<forall>j<i. ntid (models (initial_load api w sel) ! j) \<noteq> k) \<longrightarrow>
            maybe_select_provided_notetype (initial_load api w sel)
              = (initial_load api w sel)
                  \<lparr>modelsList := setCurrentRow (int i) (modelsList (initial_load api w sel))\<rparr>
            \<and> currentRow (modelsList (maybe_select_provided_notetype (initial_load api w sel)))
                = int i)
         \<and> (sel = Some k \<and> (\<forall>m \<in> set (models (initial_load api w sel)). ntid m \<noteq> k) \<longrightarrow>
            maybe_select_provided_notetype (initial_load api w sel) = initial_load api w sel)
         \<and> setupModels api (Models_init w sel)
             = maybe_select_provided_notetype (initial_load api w sel)"
proof -
  let ?L = "initial_load api w sel"
  note cases = maybe_select_cases [of ?L]
  have a: "maybe_select_provided_notetype ?L = ?L\<lparr>modelsList := setCurrentRow 0 (modelsList ?L)\<rparr>"
    if "sel = None"
    using that cases by (simp add: initial_load_fields)
  have a': "currentRow (modelsList (maybe_select_provided_notetype ?L)) = 0"
    if "sel = None" "all_use_counts api (col w) \<noteq> []"
    using that a by (simp add: currentRow_def setCurrentRow_def initial_load_fields)
  have b: "maybe_select_provided_notetype ?L = ?L\<lparr>modelsList := setCurrentRow (int i) (modelsList ?L)\<rparr>
      \<and> currentRow (modelsList (maybe_select_provided_notetype ?L)) = int i"
    if h: "sel = Some k" "i < length (models ?L)" "ntid (models ?L ! i) = k"
      "\<forall>j<i. ntid (models ?L ! j) \<noteq> k"
  proof -
    have "models ?L ! i \<in> set (all_use_counts api (col w))"
      using h(2) by (simp add: initial_load_fields)
    then have "k \<noteq> 0" using assms h(3) by blast
    moreover have "selected_notetype_id ?L = Some k"
      and "length (items (modelsList ?L)) = length (models ?L)"
      using h(1) by (simp_all add: initial_load_fields)
    ultimately show ?thesis
      using h(2,3,4) maybe_select_cases [of ?L k i] by blast
  qed
  have c: "maybe_select_provided_notetype ?L = ?L"
    if h: "sel = Some k" "\<forall>m \<in> set (models ?L). ntid m \<noteq> k"
  proof (cases "k = 0")
    case True
    then have "selected_notetype_id ?L = Some 0"
      using h(1) by (simp add: initial_load_fields)
    then have "maybe_select_provided_notetype ?L = ?L\<lparr>modelsList := setCurrentRow 0 (modelsList ?L)\<rparr>"
      using maybe_select_cases [of ?L] by blast
    then show ?thesis by (simp only: select_row_0_again)
  next
    case False
    moreover have "selected_notetype_id ?L = Some k"
      using h(1) by (simp add: initial_load_fields)
    ultimately show ?thesis
      using h(2) maybe_select_cases [of ?L k] by blast
  qed
  show ?thesis using a a' b c setupModels_initial_load [of api w sel] by blast
qed

text \<open>The initial load over the two note types, with no id, the ids 2, 7 and 0 given.\<close>

lemma list_col_all_use_counts: "all_use_counts list_col c = c"
  by (simp add: list_col_def)

theorem maybe_select_provided_notetype_selects_witness:
  "ntid (all_use_counts list_col (col \<lparr>col = two_types, calls = []\<rparr>) ! 0) \<noteq> 0
   \<and> ntid (all_use_counts list_col (col \<lparr>col = two_types, calls = []\<rparr>) ! 1) \<noteq> 0
   \<and> length (all_use_counts list_col (col \<lparr>col = two_types, calls = []\<rparr>)) = 2
   \<and> currentRow (modelsList (maybe_select_provided_notetype (initial_load list_col \<lparr>col = two_types, calls = []\<rparr> None))) = 0
   \<and> 1 < length (models (initial_load list_col \<lparr>col = two_types, calls = []\<rparr> (Some 2)))
   \<and> ntid (models (initial_load list_col \<lparr>col = two_types, calls = []\<rparr> (Some 2)) ! 1) = 2
   \<and> ntid (models (initial_load list_col \<lparr>col = two_types, calls = []\<rparr> (Some 2)) ! 0) \<noteq> 2
   \<and> currentRow (modelsList (maybe_select_provided_notetype (initial_load list_col \<lparr>col = two_types, calls = []\<rparr> (Some 2)))) = 1
   \<and> ntid (models (initial_load list_col \<lparr>col = two_types, calls = []\<rparr> (Some 7)) ! 0) \<noteq> 7
   \<and> ntid (models (initial_load list_col \<lparr>col = two_types, calls = []\<rparr> (Some 7)) ! 1) \<noteq> 7
   \<and> length (models (initial_load list_col \<lparr>col = two_types, calls = []\<rparr> (Some 7))) = 2
   \<and> maybe_select_provided_notetype (initial_load list_col \<lparr>col = two_types, calls = []\<rparr> (Some 7))
       = initial_load list_col \<lparr>col = two_types, calls = []\<rparr> (Some 7)
   \<and> maybe_select_provided_notetype (initial_load list_col \<lparr>col = two_types, calls = []\<rparr> (Some 0))
       = initial_load list_col \<lparr>col = two_types, calls = []\<rparr> (Some 0)
   \<and> currentRow (modelsList (setupModels list_col (Models_init \<lparr>col = two_types, calls = []\<rparr> (Some 2)))) = 1"
proof -
  have nz: "\<forall>m \<in> set (all_use_counts list_col (col \<lparr>col = two_types, calls = []\<rparr>)). ntid m \<noteq> 0"
    by (simp add: list_col_all_use_counts) (simp add: two_types_def)
  have g: "ntid (all_use_counts list_col (col \<lparr>col = two_types, calls = []\<rparr>) ! 0) \<noteq> 0"
    "ntid (all_use_counts list_col (col \<lparr>col = two_types, calls = []\<rparr>) ! 1) \<noteq> 0"
    "length (all_use_counts list_col (col \<lparr>col = two_types, calls = []\<rparr>)) = 2"
    by (simp_all add: list_col_all_use_counts) (simp_all add: two_types_def)
  have m: "models (initial_load list_col \<lparr>col = two_types, calls = []\<rparr> sel) = two_types" for sel
    by (simp add: initial_load_fields list_col_all_use_counts)
  have h: "1 < length (models (initial_load list_col \<lparr>col = two_types, calls = []\<rparr> (Some 2)))"
    "ntid (models (initial_load list_col \<lparr>col = two_types, calls = []\<rparr> (Some 2)) ! 1) = 2"
    "ntid (models (initial_load list_col \<lparr>col = two_types, calls = []\<rparr> (Some 2)) ! 0) \<noteq> 2"
    "\<forall>j<1. ntid (models (initial_load list_col \<lparr>col = two_types, calls = []\<rparr> (Some 2)) ! j) \<noteq> 2"
    "ntid (models (initial_load list_col \<lparr>col = two_types, calls = []\<rparr> (Some 7)) ! 0) \<noteq> 7"
    "ntid (models (initial_load list_col \<lparr>col = two_types, calls = []\<rparr> (Some 7)) ! 1) \<noteq> 7"
    "length (models (initial_load list_col \<lparr>col = two_types, calls = []\<rparr> (Some 7))) = 2"
    "\<forall>m \<in> set (models (initial_load list_col \<lparr>col = two_types, calls = []\<rparr> (Some 7))). ntid m \<noteq> 7"
    "\<forall>m \<in> set (models (initial_load list_col \<lparr>col = two_types, calls = []\<rparr> (Some 0))). ntid m \<noteq> 0"
    by (simp_all add: m) (simp_all add: two_types_def)
  have ne: "all_use_counts list_col (col \<lparr>col = two_types, calls = []\<rparr>) \<noteq> []"
    by (simp add: list_col_all_use_counts) (simp add: two_types_def)
  have a: "currentRow (modelsList (maybe_select_provided_notetype (initial_load list_col \<lparr>col = two_types, calls = []\<rparr> None))) = 0"
    using ne maybe_select_provided_notetype_selects [OF nz, where sel = None]
    by blast
  have "currentRow (modelsList (maybe_select_provided_notetype (initial_load list_col \<lparr>col = two_types, calls = []\<rparr> (Some 2))))
      = int 1"
    using h(1,2,4) maybe_select_provided_notetype_selects [OF nz, where sel = "Some 2" and k = 2 and i = 1]
    by blast
  then have b: "currentRow (modelsList (maybe_select_provided_notetype (initial_load list_col \<lparr>col = two_types, calls = []\<rparr> (Some 2))))
      = 1"
    by simp
  have c: "maybe_select_provided_notetype (initial_load list_col \<lparr>col = two_types, calls = []\<rparr> (Some 7))
       = initial_load list_col \<lparr>col = two_types, calls = []\<rparr> (Some 7)"
    using h(8) maybe_select_provided_notetype_selects [OF nz, where sel = "Some 7" and k = 7]
    by blast
  have d: "maybe_select_provided_notetype (initial_load list_col \<lparr>col = two_types, calls = []\<rparr> (Some 0))
       = initial_load list_col \<lparr>col = two_types, calls = []\<rparr> (Some 0)"
    using h(9) maybe_select_provided_notetype_selects [OF nz, where sel = "Some 0" and k = 0]
    by blast
  have "setupModels list_col (Models_init \<lparr>col = two_types, calls = []\<rparr> (Some 2))
      = maybe_select_provided_notetype (initial_load list_col \<lparr>col = two_types, calls = []\<rparr> (Some 2))"
    using maybe_select_provided_notetype_selects [OF nz, where sel = "Some 2"] by blast
  then have e: "currentRow (modelsList (setupModels list_col (Models_init \<lparr>col = two_types, calls = []\<rparr> (Some 2)))) = 1"
    using b by simp
  show ?thesis using g h(1,2,3,5,6,7) a b c d e by blast
qed

text \<open>
  The hypothesis on the listed ids is used: were a note type listed under the id 0 in
  row 1 and the id 0 given, row 0 would become current.
\<close>

lemma listed_id_zero_is_not_looked_up:
  "ntid (with_unsaved ! 1) = 0
   \<and> currentRow (modelsList
         (setupModels list_col (Models_init \<lparr>col = with_unsaved, calls = []\<rparr> (Some 0)))) = 0"
  by (simp add: setupModels_initial_load maybe_select_provided_notetype_def initial_load_fields
      currentRow_def setCurrentRow_def list_col_all_use_counts)
     (simp add: with_unsaved_def)

subsection \<open>The selected row\<close>

text \<open>
  \<open>currentRow_updateModelsList\<close> above gives the row after a refresh: the row that was
  current before (0 when there was none) if the new list has such a row, and no current
  row otherwise.
\<close>

lemma delete_second_state:
  "final (onDelete list_col True (dialog_on two_types 1))
     = \<lparr>mw = \<lparr>col = one_type,
               calls = [AskUser notetypes_delete_this_unused_note_type True, ModSchema True,
                        Rem (Some \<lparr>nt_id = 2, nt_name = ''Cloze''\<rparr>)]\<rparr>,
        selected_notetype_id = None,
        models = one_type,
        modelsList = \<lparr>items = map (item_text list_col) one_type, current = - 1\<rparr>\<rparr>"
  by (simp add: delete_second final_def)

text \<open>
  C1. The second of two note types is current and is deleted: the refreshed list has one
  entry and the widget has no current row (\<open>currentRow()\<close> is \<open>-1\<close>, not an index of
  the cached list); \<open>current_notetype\<close> then reads \<open>self.models[-1]\<close>, the last
  entry.
\<close>

theorem delete_last_row_leaves_no_current_row:
  "currentRow (modelsList (dialog_on two_types 1)) = 1
   \<and> length (models (dialog_on two_types 1)) = 2
   \<and> models (final (onDelete list_col True (dialog_on two_types 1))) = one_type
   \<and> length one_type = 1
   \<and> currentRow (modelsList (final (onDelete list_col True (dialog_on two_types 1)))) = - 1
   \<and> current_notetype list_col (final (onDelete list_col True (dialog_on two_types 1)))
       = Inr (Some \<lparr>nt_id = 1, nt_name = ''Basic''\<rparr>)"
  by (simp add: delete_second_state)
     (simp add: dialog_on_def two_types_def one_type_def currentRow_def current_notetype_def
       getitem_def list_col_def as_notetype_def)

end
